theory Spec2Isabelle
  imports Main
begin

section \<open>Python values and exceptions shared by the modules\<close>

text \<open>
  A langchain \<open>Document\<close>: its text and its metadata dictionary (kept as an association
  list, since nothing here depends on lookups in it).
\<close>

record document =
  page_content :: string
  metadata :: "(string \<times> string) list"

text \<open>
  Exceptions are values. \<open>ValueError\<close> and \<open>KeyError\<close> are the ones the repository's own
  statements raise (a \<open>raise ValueError(...)\<close>, a subscript of a dictionary);
  \<open>AttributeError\<close> is a method call on \<open>None\<close>; \<open>LibraryError\<close> stands for any
  exception of class \<open>Exception\<close> that comes out of a call into langchain, Chroma, the
  embedding model or the operating system, and carries what \<open>str(e)\<close> gives for it.
  Signals outside class \<open>Exception\<close> (an interrupt from the keyboard, an exit of the
  interpreter) are no part of the model.
\<close>

datatype error =
    ValueError string
  | KeyError string
  | AttributeError string
  | LibraryError string

text \<open>\<open>str(e)\<close>; for a \<open>KeyError\<close> it is the \<open>repr\<close> of the missing key.\<close>

fun str_error :: "error \<Rightarrow> string" where
  "str_error (ValueError m) = m"
| "str_error (KeyError k) = [CHR 0x27] @ k @ [CHR 0x27]"
| "str_error (AttributeError m) = m"
| "str_error (LibraryError m) = m"

text \<open>The outcome of a library call, turned into the outcome of the statement that makes it.\<close>

fun lib :: "string + 'a \<Rightarrow> error + 'a" where
  "lib (Inl m) = Inl (LibraryError m)"
| "lib (Inr v) = Inr v"

text \<open>\<open>s.endswith(suf)\<close>.\<close>

definition endswith :: "string \<Rightarrow> string \<Rightarrow> bool" where
  "endswith s suf \<longleftrightarrow> length suf \<le> length s \<and> drop (length s - length suf) s = suf"

section \<open>document_processor.py\<close>

text \<open>
  The collaborators of \<open>DocumentProcessor\<close>: the two predicates of \<open>os.path\<close>, the
  \<open>load()\<close> of the three langchain loaders, and \<open>split_documents\<close> of the
  \<open>RecursiveCharacterTextSplitter\<close> built in \<open>__init__\<close> from \<open>chunk_size\<close> and
  \<open>chunk_overlap\<close>, and the constructor of that splitter. None of them is code of the
  repository; each is a parameter, and each call may raise (\<open>Inl\<close>, or \<open>Some\<close> for the
  constructor, with the message).
\<close>

record loaders =
  os_path_isfile :: "string \<Rightarrow> bool"
  os_path_isdir :: "string \<Rightarrow> bool"
  PyPDFLoader_load :: "string \<Rightarrow> string + document list"
  TextLoader_load :: "string \<Rightarrow> string + document list"
  DirectoryLoader_load :: "string \<Rightarrow> string \<Rightarrow> string + document list"
  RecursiveCharacterTextSplitter_init :: "int \<Rightarrow> int \<Rightarrow> string option"
  splitter_split_documents :: "int \<Rightarrow> int \<Rightarrow> document list \<Rightarrow> string + document list"

record DocumentProcessor =
  chunk_size :: int
  chunk_overlap :: int

text \<open>
  \<open>__init__\<close> stores the two numbers and builds the splitter from them; an exception of
  the splitter's constructor leaves \<open>__init__\<close>, and no object comes to be.
\<close>

definition DocumentProcessor_init :: "loaders \<Rightarrow> int \<Rightarrow> int \<Rightarrow> error + DocumentProcessor" where
  "DocumentProcessor_init L cs co =
     (case RecursiveCharacterTextSplitter_init L cs co of
        Some m \<Rightarrow> Inl (LibraryError m)
      | None \<Rightarrow> Inr \<lparr>chunk_size = cs, chunk_overlap = co\<rparr>)"

text \<open>The object that \<open>DocumentProcessor()\<close>, with the default arguments 1000 and 200, builds.\<close>

definition DocumentProcessor_default :: DocumentProcessor where
  "DocumentProcessor_default = \<lparr>chunk_size = 1000, chunk_overlap = 200\<rparr>"

text \<open>
  Every method returns, besides its outcome, the calls it made into the loaders and the
  splitter, in order, so that "nothing was loaded or split" is a statement about the
  model.
\<close>

datatype call =
    Call_PyPDFLoader string
  | Call_TextLoader string
  | Call_DirectoryLoader string string
  | Call_split_documents "document list"

definition load_documents ::
  "loaders \<Rightarrow> DocumentProcessor \<Rightarrow> string \<Rightarrow> call list \<times> (error + document list)" where
  "load_documents L self file_path =
     (if endswith file_path ''.pdf'' then
        ([Call_PyPDFLoader file_path], lib (PyPDFLoader_load L file_path))
      else if endswith file_path ''.txt'' then
        ([Call_TextLoader file_path], lib (TextLoader_load L file_path))
      else
        ([], Inl (ValueError (''Unsupported file type: '' @ file_path))))"

definition load_directory ::
  "loaders \<Rightarrow> DocumentProcessor \<Rightarrow> string \<Rightarrow> call list \<times> (error + document list)" where
  "load_directory L self directory_path =
     (case lib (DirectoryLoader_load L directory_path ''**/*.pdf'') of
        Inl e \<Rightarrow> ([Call_DirectoryLoader directory_path ''**/*.pdf''], Inl e)
      | Inr pdfs \<Rightarrow>
          (case lib (DirectoryLoader_load L directory_path ''**/*.txt'') of
             Inl e \<Rightarrow>
               ([Call_DirectoryLoader directory_path ''**/*.pdf'',
                 Call_DirectoryLoader directory_path ''**/*.txt''], Inl e)
           | Inr txts \<Rightarrow>
               ([Call_DirectoryLoader directory_path ''**/*.pdf'',
                 Call_DirectoryLoader directory_path ''**/*.txt''], Inr (pdfs @ txts))))"

definition split_documents ::
  "loaders \<Rightarrow> DocumentProcessor \<Rightarrow> document list \<Rightarrow> call list \<times> (error + document list)" where
  "split_documents L self documents =
     ([Call_split_documents documents],
      lib (splitter_split_documents L (chunk_size self) (chunk_overlap self) documents))"

text \<open>The tail of \<open>process_documents\<close>: split what was loaded, unless loading raised.\<close>

definition then_split ::
  "loaders \<Rightarrow> DocumentProcessor \<Rightarrow> call list \<times> (error + document list) \<Rightarrow>
   call list \<times> (error + document list)" where
  "then_split L self loaded =
     (case snd loaded of
        Inl e \<Rightarrow> (fst loaded, Inl e)
      | Inr documents \<Rightarrow>
          (fst loaded @ fst (split_documents L self documents),
           snd (split_documents L self documents)))"

definition process_documents ::
  "loaders \<Rightarrow> DocumentProcessor \<Rightarrow> string \<Rightarrow> call list \<times> (error + document list)" where
  "process_documents L self source_path =
     (if os_path_isfile L source_path then
        then_split L self (load_documents L self source_path)
      else if os_path_isdir L source_path then
        then_split L self (load_directory L self source_path)
      else
        ([], Inl (ValueError (''Invalid path: '' @ source_path))))"

text \<open>
  Concrete collaborators for the examples: a file system with the one file
  \<open>notes.txt\<close> and the one directory \<open>docs\<close>, a text loader that reads \<open>notes.txt\<close> as a
  file without a single character, and a splitter that returns its input and whose
  constructor refuses an overlap larger than the chunk size.
\<close>

definition example_loaders :: loaders where
  "example_loaders =
     \<lparr>os_path_isfile = (\<lambda>p. p = ''notes.txt''),
      os_path_isdir = (\<lambda>p. p = ''docs''),
      PyPDFLoader_load = (\<lambda>p. Inl ''cannot open''),
      TextLoader_load = (\<lambda>p. Inr [\<lparr>page_content = '''', metadata = [(''source'', p)]\<rparr>]),
      DirectoryLoader_load = (\<lambda>d g. Inr []),
      RecursiveCharacterTextSplitter_init =
        (\<lambda>cs co. if co > cs then Some ''chunk overlap larger than chunk size'' else None),
      splitter_split_documents = (\<lambda>cs co ds. Inr ds)\<rparr>"

section \<open>The libraries and the operating system behind the vector stores\<close>

text \<open>
  The object held in \<open>self.embeddings\<close>: one constructor for each class the two
  modules instantiate, with the arguments given there (model name; for the Hugging Face
  class also the device and \<open>normalize_embeddings\<close>; for the fake one its size).
\<close>

datatype embeddings =
    OpenAIEmbeddings
  | SentenceTransformerEmbeddings string
  | HuggingFaceEmbeddings string string bool
  | FakeEmbeddings nat

text \<open>
  Chroma, the embedding model and the file system are outside the repository. Each call
  into them is a parameter that takes the state of the world \<open>'w\<close> (the disk, the Chroma
  client, the network) and returns the next one with its outcome; \<open>'h\<close> is a reference
  to a Chroma object, whose contents live in the world. A call that raises gives the
  message of its exception. Nothing is assumed about what these calls do.
\<close>

record ('w, 'h) externals =
  os_getenv :: "'w \<Rightarrow> string \<Rightarrow> string option"
  OpenAIEmbeddings_init :: "'w \<Rightarrow> 'w \<times> string option"
  SentenceTransformerEmbeddings_init :: "'w \<Rightarrow> string \<Rightarrow> 'w \<times> string option"
  HuggingFaceEmbeddings_init :: "'w \<Rightarrow> string \<Rightarrow> 'w \<times> string option"
  Chroma_init :: "'w \<Rightarrow> string \<Rightarrow> embeddings \<Rightarrow> string \<Rightarrow> 'w \<times> (string + 'h)"
  Chroma_from_documents ::
    "'w \<Rightarrow> document list \<Rightarrow> embeddings \<Rightarrow> string \<Rightarrow> string \<Rightarrow> 'w \<times> (string + 'h)"
  Chroma_add_documents :: "'w \<Rightarrow> 'h \<Rightarrow> document list \<Rightarrow> 'w \<times> string option"
  Chroma_persist :: "'w \<Rightarrow> 'h \<Rightarrow> 'w \<times> string option"
  Chroma_similarity_search :: "'w \<Rightarrow> 'h \<Rightarrow> string \<Rightarrow> int \<Rightarrow> 'w \<times> (string + document list)"
  Chroma_delete_collection :: "'w \<Rightarrow> 'h \<Rightarrow> 'w \<times> string option"
  os_path_exists :: "'w \<Rightarrow> string \<Rightarrow> bool"
  os_listdir :: "'w \<Rightarrow> string \<Rightarrow> string + string list"
  shutil_rmtree :: "'w \<Rightarrow> string \<Rightarrow> 'w \<times> string option"

text \<open>
  The attributes of a \<open>VectorStore\<close>, the same in both modules. \<open>vectorstore\<close> is
  \<open>None\<close> or the Chroma object.
\<close>

record 'h VectorStore =
  collection_name :: string
  persist_directory :: string
  embeddings :: embeddings
  vectorstore :: "'h option"

section \<open>vector_store.py\<close>

text \<open>
  A method takes the world and the object and returns the next world, the object as the
  method leaves it, and what it returned or raised.
\<close>

text \<open>
  \<open>_load_or_create_vectorstore\<close>: if the directory exists the Chroma object is built,
  whatever the directory holds; an exception of the constructor is caught.
\<close>

definition load_or_create_vectorstore ::
  "('w, 'h) externals \<Rightarrow> 'w \<Rightarrow> 'h VectorStore \<Rightarrow> 'w \<times> 'h VectorStore" where
  "load_or_create_vectorstore X w self =
     (if os_path_exists X w (persist_directory self) then
        (case Chroma_init X w (collection_name self) (embeddings self)
                (persist_directory self) of
           (w', Inr h) \<Rightarrow> (w', self\<lparr>vectorstore := Some h\<rparr>)
         | (w', Inl m) \<Rightarrow> (w', self\<lparr>vectorstore := None\<rparr>))
      else (w, self\<lparr>vectorstore := None\<rparr>))"

text \<open>
  \<open>__init__(collection_name, persist_directory, embedding_model)\<close>: the OpenAI
  embeddings if they are asked for and the key is set to a non-empty string, the
  sentence-transformers model otherwise. Neither constructor is inside a \<open>try\<close>.
\<close>

definition VectorStore_init ::
  "('w, 'h) externals \<Rightarrow> 'w \<Rightarrow> string \<Rightarrow> string \<Rightarrow> string \<Rightarrow> 'w \<times> (error + 'h VectorStore)" where
  "VectorStore_init X w cname pdir embedding_model =
     (if embedding_model = ''openai''
         \<and> (case os_getenv X w ''OPENAI_API_KEY'' of None \<Rightarrow> False | Some v \<Rightarrow> v \<noteq> [])
      then
        (case OpenAIEmbeddings_init X w of
           (w', Some m) \<Rightarrow> (w', Inl (LibraryError m))
         | (w', None) \<Rightarrow>
             (case load_or_create_vectorstore X w'
                     \<lparr>collection_name = cname, persist_directory = pdir,
                      embeddings = OpenAIEmbeddings, vectorstore = None\<rparr> of
                (w'', self) \<Rightarrow> (w'', Inr self)))
      else
        (case SentenceTransformerEmbeddings_init X w ''all-MiniLM-L6-v2'' of
           (w', Some m) \<Rightarrow> (w', Inl (LibraryError m))
         | (w', None) \<Rightarrow>
             (case load_or_create_vectorstore X w'
                     \<lparr>collection_name = cname, persist_directory = pdir,
                      embeddings = SentenceTransformerEmbeddings ''all-MiniLM-L6-v2'',
                      vectorstore = None\<rparr> of
                (w'', self) \<Rightarrow> (w'', Inr self))))"

text \<open>\<open>self.vectorstore.persist()\<close>, the last statement of \<open>add_documents\<close>.\<close>

definition persist_changes ::
  "('w, 'h) externals \<Rightarrow> 'w \<Rightarrow> 'h VectorStore \<Rightarrow> 'h \<Rightarrow> 'w \<times> 'h VectorStore \<times> error option" where
  "persist_changes X w self h =
     (case Chroma_persist X w h of (w', r) \<Rightarrow> (w', self, map_option LibraryError r))"

definition add_documents ::
  "('w, 'h) externals \<Rightarrow> 'w \<Rightarrow> 'h VectorStore \<Rightarrow> document list \<Rightarrow>
   'w \<times> 'h VectorStore \<times> error option" where
  "add_documents X w self documents =
     (if documents = [] then (w, self, Some (ValueError ''No documents provided''))
      else
        (case vectorstore self of
           None \<Rightarrow>
             (case Chroma_from_documents X w documents (embeddings self)
                     (collection_name self) (persist_directory self) of
                (w', Inl m) \<Rightarrow> (w', self, Some (LibraryError m))
              | (w', Inr h) \<Rightarrow> persist_changes X w' (self\<lparr>vectorstore := Some h\<rparr>) h)
         | Some h \<Rightarrow>
             (case Chroma_add_documents X w h documents of
                (w', Some m) \<Rightarrow> (w', self, Some (LibraryError m))
              | (w', None) \<Rightarrow> persist_changes X w' self h)))"

definition similarity_search ::
  "('w, 'h) externals \<Rightarrow> 'w \<Rightarrow> 'h VectorStore \<Rightarrow> string \<Rightarrow> int \<Rightarrow>
   'w \<times> (error + document list)" where
  "similarity_search X w self query k =
     (case vectorstore self of
        None \<Rightarrow> (w, Inr [])
      | Some h \<Rightarrow>
          (case Chroma_similarity_search X w h query k of (w', results) \<Rightarrow> (w', lib results)))"


section \<open>vector_store_completely_free.py\<close>

text \<open>
  The class of this module is also called \<open>VectorStore\<close>; its methods carry the suffix
  \<open>_free\<close> here. What it prints is not modelled.
\<close>

text \<open>
  \<open>_load_or_create_vectorstore\<close>. \<open>os.listdir\<close> is outside the \<open>try\<close>, so an
  exception of it leaves the method; one of the \<open>Chroma\<close> constructor is caught.
\<close>

definition load_or_create_vectorstore_free ::
  "('w, 'h) externals \<Rightarrow> 'w \<Rightarrow> 'h VectorStore \<Rightarrow> 'w \<times> (error + 'h VectorStore)" where
  "load_or_create_vectorstore_free X w self =
     (if os_path_exists X w (persist_directory self) then
        (case os_listdir X w (persist_directory self) of
           Inl m \<Rightarrow> (w, Inl (LibraryError m))
         | Inr entries \<Rightarrow>
             (if entries \<noteq> [] then
                (case Chroma_init X w (collection_name self) (embeddings self)
                        (persist_directory self) of
                   (w', Inr h) \<Rightarrow> (w', Inr (self\<lparr>vectorstore := Some h\<rparr>))
                 | (w', Inl m) \<Rightarrow> (w', Inr (self\<lparr>vectorstore := None\<rparr>)))
              else (w, Inr (self\<lparr>vectorstore := None\<rparr>))))
      else (w, Inr (self\<lparr>vectorstore := None\<rparr>)))"

text \<open>
  \<open>__init__\<close>: the Hugging Face model is tried first; if its constructor raises,
  \<open>self.embeddings\<close> becomes \<open>FakeEmbeddings(size=384)\<close>.
\<close>

definition VectorStore_init_free ::
  "('w, 'h) externals \<Rightarrow> 'w \<Rightarrow> string \<Rightarrow> string \<Rightarrow> 'w \<times> (error + 'h VectorStore)" where
  "VectorStore_init_free X w cname pdir =
     (case HuggingFaceEmbeddings_init X w ''sentence-transformers/all-MiniLM-L6-v2'' of
        (w', None) \<Rightarrow>
          load_or_create_vectorstore_free X w'
            \<lparr>collection_name = cname, persist_directory = pdir,
             embeddings =
               HuggingFaceEmbeddings ''sentence-transformers/all-MiniLM-L6-v2'' ''cpu'' True,
             vectorstore = None\<rparr>
      | (w', Some e) \<Rightarrow>
          load_or_create_vectorstore_free X w'
            \<lparr>collection_name = cname, persist_directory = pdir,
             embeddings = FakeEmbeddings 384,
             vectorstore = None\<rparr>)"

text \<open>
  \<open>add_documents\<close>: the body of \<open>vector_store.py\<close> inside a \<open>try\<close> whose handler prints
  and raises the same exception again.
\<close>

definition add_documents_free ::
  "('w, 'h) externals \<Rightarrow> 'w \<Rightarrow> 'h VectorStore \<Rightarrow> document list \<Rightarrow>
   'w \<times> 'h VectorStore \<times> error option" where
  "add_documents_free X w self documents =
     (if documents = [] then (w, self, Some (ValueError ''No documents provided''))
      else
        (case vectorstore self of
           None \<Rightarrow>
             (case Chroma_from_documents X w documents (embeddings self)
                     (collection_name self) (persist_directory self) of
                (w', Inl m) \<Rightarrow> (w', self, Some (LibraryError m))
              | (w', Inr h) \<Rightarrow> persist_changes X w' (self\<lparr>vectorstore := Some h\<rparr>) h)
         | Some h \<Rightarrow>
             (case Chroma_add_documents X w h documents of
                (w', Some m) \<Rightarrow> (w', self, Some (LibraryError m))
              | (w', None) \<Rightarrow> persist_changes X w' self h)))"

text \<open>\<open>similarity_search\<close>: an exception of the Chroma search is caught, and \<open>[]\<close> returned.\<close>

definition similarity_search_free ::
  "('w, 'h) externals \<Rightarrow> 'w \<Rightarrow> 'h VectorStore \<Rightarrow> string \<Rightarrow> int \<Rightarrow> 'w \<times> document list" where
  "similarity_search_free X w self query k =
     (case vectorstore self of
        None \<Rightarrow> (w, [])
      | Some h \<Rightarrow>
          (case Chroma_similarity_search X w h query k of
             (w', Inr results) \<Rightarrow> (w', results)
           | (w', Inl m) \<Rightarrow> (w', [])))"



section \<open>rag_chain.py\<close>

text \<open>
  The Python values that \<open>query\<close> and \<open>simple_rag_response\<close> return: strings,
  truth values, lists of documents, and dictionaries with string keys.
\<close>

datatype pyval =
    PyStr string
  | PyBool bool
  | PyDocs "document list"
  | PyDict "(string \<times> pyval) list"

text \<open>\<open>d[k]\<close> on a dictionary: a missing key raises \<open>KeyError\<close>.\<close>

definition getitem :: "(string \<times> pyval) list \<Rightarrow> string \<Rightarrow> error + pyval" where
  "getitem d k = (case map_of d k of None \<Rightarrow> Inl (KeyError k) | Some v \<Rightarrow> Inr v)"

text \<open>
  What a caller sees under a key of a returned value: the entry of a dictionary, and
  nothing for a value that is not a dictionary.
\<close>

fun field :: "pyval \<Rightarrow> string \<Rightarrow> pyval option" where
  "field (PyDict d) k = map_of d k"
| "field v k = None"

text \<open>
  \<open>query\<close> reads one attribute of a \<open>RAGChain\<close>, the \<open>RetrievalQA\<close> chain built in
  \<open>_setup_chain\<close>. Calling it runs the retriever and the language model, both outside the
  repository: it raises, or returns a dictionary.
\<close>

record 'w RAGChain =
  qa_chain :: "'w \<Rightarrow> string \<Rightarrow> 'w \<times> (string + (string \<times> pyval) list)"

text \<open>The dictionary built in the \<open>except\<close> branch of \<open>query\<close>.\<close>

definition query_failure :: "error \<Rightarrow> pyval" where
  "query_failure e =
     PyDict [(''answer'', PyStr (''Error processing query: '' @ str_error e)),
             (''source_documents'', PyDocs []),
             (''success'', PyBool False)]"

text \<open>
  \<open>query\<close>: the call of the chain and the two subscripts of its result are all inside
  the \<open>try\<close>.
\<close>

definition query :: "'w RAGChain \<Rightarrow> 'w \<Rightarrow> string \<Rightarrow> 'w \<times> pyval" where
  "query self w question =
     (case qa_chain self w question of
        (w', Inl m) \<Rightarrow> (w', query_failure (LibraryError m))
      | (w', Inr result) \<Rightarrow>
          (case getitem result ''result'' of
             Inl e \<Rightarrow> (w', query_failure e)
           | Inr answer \<Rightarrow>
               (case getitem result ''source_documents'' of
                  Inl e \<Rightarrow> (w', query_failure e)
                | Inr sources \<Rightarrow>
                    (w', PyDict [(''answer'', answer),
                                 (''source_documents'', sources),
                                 (''success'', PyBool True)]))))"

section \<open>app_local.py\<close>

text \<open>\<open>str(i)\<close> for a natural number, as the f-string prints the counter of \<open>enumerate\<close>.\<close>

function str_nat :: "nat \<Rightarrow> string" where
  "str_nat n =
     (if n < 10 then [''0123456789'' ! n]
      else str_nat (n div 10) @ [''0123456789'' ! (n mod 10)])"
  by pat_completeness auto
termination
  by (relation "measure id") auto

declare str_nat.simps [simp del]

text \<open>\<open>sep.join(parts)\<close>.\<close>

fun join :: "string \<Rightarrow> string list \<Rightarrow> string" where
  "join sep [] = []"
| "join sep [x] = x"
| "join sep (x # y # ys) = x @ sep @ join sep (y # ys)"

text \<open>
  The loop over \<open>enumerate(docs, 1)\<close>: one part for each document, numbered from \<open>i\<close>,
  with the first 500 characters of its content and an ellipsis if there are more.
\<close>

fun context_parts :: "nat \<Rightarrow> document list \<Rightarrow> string list" where
  "context_parts i [] = []"
| "context_parts i (doc # docs) =
     (''**Source '' @ str_nat i @ '':**\<newline>'' @ take 500 (page_content doc)
        @ (if length (page_content doc) > 500 then ''...'' else []))
     # context_parts (Suc i) docs"

definition no_information :: string where
  "no_information =
     ''I couldn't find any relevant information in the documents to answer your question.''"

definition none_has_no_attribute :: string where
  "none_has_no_attribute = [CHR 0x27] @ ''NoneType'' @ [CHR 0x27]
     @ '' object has no attribute '' @ [CHR 0x27] @ ''similarity_search'' @ [CHR 0x27]"

text \<open>
  \<open>simple_rag_response(vector_store, question, k)\<close> with the \<open>VectorStore\<close> of
  \<open>vector_store_completely_free.py\<close>. The session may hold \<open>None\<close> for the store; the
  method call on it raises inside the \<open>try\<close>. The function returns a string in every
  branch.
\<close>

definition simple_rag_response ::
  "('w, 'h) externals \<Rightarrow> 'w \<Rightarrow> 'h VectorStore option \<Rightarrow> string \<Rightarrow> int \<Rightarrow> 'w \<times> pyval" where
  "simple_rag_response X w vector_store question k =
     (case vector_store of
        None \<Rightarrow>
          (w, PyStr (''Error searching documents: ''
                       @ str_error (AttributeError none_has_no_attribute)))
      | Some vs \<Rightarrow>
          (case similarity_search_free X w vs question k of
             (w', docs) \<Rightarrow>
               (if docs = [] then (w', PyStr no_information)
                else
                  (w', PyStr (''Based on your documents, here's what I found:\<newline>\<newline>''
                     @ join ''\<newline>\<newline>---\<newline>\<newline>'' (context_parts 1 docs)
                     @ ''\<newline>\<newline>*Note: This is a simple context retrieval. For AI-generated answers, you need OpenAI credits.*'')))))"

section \<open>Concrete libraries for the examples\<close>

text \<open>
  A Chroma that keeps its entries in memory: the world is the list of stored documents
  together with whether the directory exists; there is one collection object, \<open>0\<close>; a
  search returns the first \<open>k\<close> entries, and refuses a \<open>k\<close> that is not positive;
  removing the directory removes the entries. No key for OpenAI is set.
\<close>

definition memory_externals :: "(document list \<times> bool, nat) externals" where
  "memory_externals =
     \<lparr>os_getenv = (\<lambda>w name. None),
      OpenAIEmbeddings_init = (\<lambda>w. (w, None)),
      SentenceTransformerEmbeddings_init = (\<lambda>w model. (w, None)),
      HuggingFaceEmbeddings_init = (\<lambda>w model. (w, None)),
      Chroma_init = (\<lambda>w cname emb pdir. (w, Inr 0)),
      Chroma_from_documents = (\<lambda>w docs emb cname pdir. ((fst w @ docs, True), Inr 0)),
      Chroma_add_documents = (\<lambda>w h docs. ((fst w @ docs, True), None)),
      Chroma_persist = (\<lambda>w h. (w, None)),
      Chroma_similarity_search =
        (\<lambda>w h q k. if k \<le> 0
                   then (w, Inl ''Number of requested results cannot be negative, or zero.'')
                   else (w, Inr (take (nat k) (fst w)))),
      Chroma_delete_collection = (\<lambda>w h. (([], snd w), None)),
      os_path_exists = (\<lambda>w p. snd w),
      os_listdir = (\<lambda>w p. Inr (if fst w = [] then [] else [''chroma.sqlite3''])),
      shutil_rmtree = (\<lambda>w p. (([], False), None))\<rparr>"


text \<open>The same as the first, except that every search raises.\<close>

definition unreachable_externals :: "(document list \<times> bool, nat) externals" where
  "unreachable_externals =
     memory_externals\<lparr>Chroma_similarity_search := (\<lambda>w h q k. (w, Inl ''connection refused''))\<rparr>"


text \<open>
  A Chroma whose collection may be missing: the world is the list of entries of the
  collection, if there is a collection, together with whether the directory exists.
  Building the Chroma object creates a missing collection, without entries; deleting a
  missing collection raises, and so does searching one.
\<close>

definition client_externals :: "(document list option \<times> bool, nat) externals" where
  "client_externals =
     \<lparr>os_getenv = (\<lambda>w name. None),
      OpenAIEmbeddings_init = (\<lambda>w. (w, None)),
      SentenceTransformerEmbeddings_init = (\<lambda>w model. (w, None)),
      HuggingFaceEmbeddings_init = (\<lambda>w model. (w, None)),
      Chroma_init =
        (\<lambda>w cname emb pdir.
           ((case fst w of None \<Rightarrow> Some [] | Some ds \<Rightarrow> Some ds, snd w), Inr 0)),
      Chroma_from_documents =
        (\<lambda>w docs emb cname pdir.
           ((case fst w of None \<Rightarrow> Some docs | Some ds \<Rightarrow> Some (ds @ docs), True), Inr 0)),
      Chroma_add_documents =
        (\<lambda>w h docs.
           (case fst w of
              None \<Rightarrow> (w, Some ''Collection rag_documents does not exist.'')
            | Some ds \<Rightarrow> ((Some (ds @ docs), True), None))),
      Chroma_persist = (\<lambda>w h. (w, None)),
      Chroma_similarity_search =
        (\<lambda>w h q k.
           (case fst w of
              None \<Rightarrow> (w, Inl ''Collection rag_documents does not exist.'')
            | Some ds \<Rightarrow>
                if k \<le> 0
                then (w, Inl ''Number of requested results cannot be negative, or zero.'')
                else (w, Inr (take (nat k) ds)))),
      Chroma_delete_collection =
        (\<lambda>w h.
           (case fst w of
              None \<Rightarrow> (w, Some ''Collection rag_documents does not exist.'')
            | Some ds \<Rightarrow> ((None, snd w), None))),
      os_path_exists = (\<lambda>w p. snd w),
      os_listdir =
        (\<lambda>w p. Inr (case fst w of None \<Rightarrow> [] | Some ds \<Rightarrow> [''chroma.sqlite3''])),
      shutil_rmtree = (\<lambda>w p. ((None, False), None))\<rparr>"

definition example_document :: document where
  "example_document = \<lparr>page_content = ''Paris is the capital of France.'',
                        metadata = [(''source'', ''notes.txt'')]\<rparr>"

text \<open>
  A store that holds the collection object, and one that holds none; both as
  \<open>vector_store_completely_free.py\<close> builds them when the model cannot be loaded.
\<close>

definition loaded_store :: "nat VectorStore" where
  "loaded_store = \<lparr>collection_name = ''rag_documents'', persist_directory = ''./chroma_db'',
                   embeddings = FakeEmbeddings 384, vectorstore = Some 0\<rparr>"

definition empty_store :: "nat VectorStore" where
  "empty_store = \<lparr>collection_name = ''rag_documents'', persist_directory = ''./chroma_db'',
                  embeddings = FakeEmbeddings 384, vectorstore = None\<rparr>"


definition opened_store :: "nat VectorStore" where
  "opened_store =
     \<lparr>collection_name = ''rag_documents'', persist_directory = ''./chroma_db'',
      embeddings = SentenceTransformerEmbeddings ''all-MiniLM-L6-v2'',
      vectorstore = Some 0\<rparr>"

text \<open>A chain whose language model cannot be reached, and one whose answer lacks a key.\<close>

definition failing_chain :: "unit RAGChain" where
  "failing_chain = \<lparr>qa_chain = (\<lambda>w q. (w, Inl ''Rate limit reached''))\<rparr>"

definition malformed_chain :: "unit RAGChain" where
  "malformed_chain = \<lparr>qa_chain = (\<lambda>w q. (w, Inr [(''query'', PyStr q)]))\<rparr>"

section \<open>Theorems about document_processor.py\<close>

text \<open>
  C10. For every \<open>source_path\<close> that is neither an existing file nor an existing
  directory, \<open>process_documents\<close> raises the \<open>ValueError\<close> "Invalid path: " followed by
  the path, and makes no call to a loader or to the splitter.
\<close>

theorem process_documents_invalid_path:
  assumes "\<not> os_path_isfile L source_path" and "\<not> os_path_isdir L source_path"
  shows "process_documents L self source_path =
           ([], Inl (ValueError (''Invalid path: '' @ source_path)))"
  using assms by (simp add: process_documents_def)

theorem process_documents_invalid_path_witness:
  "\<not> os_path_isfile example_loaders ''nowhere''
   \<and> \<not> os_path_isdir example_loaders ''nowhere''
   \<and> process_documents example_loaders DocumentProcessor_default ''nowhere'' =
       ([], Inl (ValueError ''Invalid path: nowhere''))"
proof -
  have f: "\<not> os_path_isfile example_loaders ''nowhere''"
    by (simp add: example_loaders_def)
  have d: "\<not> os_path_isdir example_loaders ''nowhere''"
    by (simp add: example_loaders_def)
  show ?thesis
    using f d process_documents_invalid_path [OF f d, of DocumentProcessor_default]
    by simp
qed

text \<open>A library call never comes back as a \<open>ValueError\<close> of the repository's own.\<close>

lemma lib_not_ValueError: "lib r \<noteq> Inl (ValueError m)"
  by (cases r) simp_all

text \<open>
  C7, as the code has it. \<open>load_documents\<close> raises its \<open>ValueError\<close> ("Unsupported file
  type: " and the path) exactly when the path ends neither in \<open>.pdf\<close> nor in \<open>.txt\<close>.
  For a path with one of the two endings it makes the one call to the loader of that
  type and hands on what the loader returned or raised, unchanged: there is no check of
  the content, and no error for a source without characters.
\<close>

theorem load_documents_unsupported_only:
  "(snd (load_documents L self file_path) =
        Inl (ValueError (''Unsupported file type: '' @ file_path))
      \<longleftrightarrow> \<not> endswith file_path ''.pdf'' \<and> \<not> endswith file_path ''.txt'')
   \<and> (endswith file_path ''.pdf'' \<longrightarrow>
        load_documents L self file_path =
          ([Call_PyPDFLoader file_path], lib (PyPDFLoader_load L file_path)))
   \<and> (\<not> endswith file_path ''.pdf'' \<and> endswith file_path ''.txt'' \<longrightarrow>
        load_documents L self file_path =
          ([Call_TextLoader file_path], lib (TextLoader_load L file_path)))"
  by (simp add: load_documents_def lib_not_ValueError)

theorem load_documents_unsupported_only_witness:
  "(\<not> endswith ''a.doc'' ''.pdf'' \<and> \<not> endswith ''a.doc'' ''.txt''
     \<and> snd (load_documents example_loaders DocumentProcessor_default ''a.doc'') =
         Inl (ValueError ''Unsupported file type: a.doc''))
   \<and> (endswith ''a.pdf'' ''.pdf''
     \<and> load_documents example_loaders DocumentProcessor_default ''a.pdf'' =
         ([Call_PyPDFLoader ''a.pdf''], Inl (LibraryError ''cannot open'')))
   \<and> (\<not> endswith ''notes.txt'' ''.pdf'' \<and> endswith ''notes.txt'' ''.txt''
     \<and> load_documents example_loaders DocumentProcessor_default ''notes.txt'' =
         ([Call_TextLoader ''notes.txt''],
          Inr [\<lparr>page_content = '''', metadata = [(''source'', ''notes.txt'')]\<rparr>]))"
  using load_documents_unsupported_only [of example_loaders DocumentProcessor_default "''a.doc''"]
    load_documents_unsupported_only [of example_loaders DocumentProcessor_default "''a.pdf''"]
    load_documents_unsupported_only [of example_loaders DocumentProcessor_default "''notes.txt''"]
  by (simp add: endswith_def example_loaders_def)

text \<open>
  C7 as the specification states it fails: \<open>notes.txt\<close> has a supported ending and
  yields a document without a single character, and \<open>load_documents\<close> returns that
  document instead of raising.
\<close>

theorem load_documents_empty_content_counterexample:
  "load_documents example_loaders DocumentProcessor_default ''notes.txt'' =
     ([Call_TextLoader ''notes.txt''],
      Inr [\<lparr>page_content = '''', metadata = [(''source'', ''notes.txt'')]\<rparr>])"
  by (simp add: load_documents_def endswith_def example_loaders_def)

section \<open>Theorems about the two vector stores\<close>

lemma persist_changes_not_ValueError:
  "snd (snd (persist_changes X w self h)) \<noteq> Some (ValueError m)"
  by (cases "Chroma_persist X w h") (auto simp: persist_changes_def)

text \<open>
  C3. In both modules \<open>add_documents\<close> raises its \<open>ValueError\<close> "No documents provided"
  (the \<open>EmptyInput\<close> of the specification) if and only if the list of documents is
  empty. Any other failure of the method is an exception of Chroma, a different value.
\<close>

theorem add_documents_empty_input:
  "(snd (snd (add_documents X w self documents)) = Some (ValueError ''No documents provided'')
      \<longleftrightarrow> documents = [])
   \<and> (snd (snd (add_documents_free X w self documents)) =
        Some (ValueError ''No documents provided'')
      \<longleftrightarrow> documents = [])"
  by (auto simp: add_documents_def add_documents_free_def persist_changes_not_ValueError
           split: option.splits prod.splits sum.splits)

text \<open>
  A store built by \<open>__init__\<close> of \<open>vector_store_completely_free.py\<close> on a directory
  that does not exist holds no collection object.
\<close>

lemma fresh_store_holds_no_collection:
  assumes "\<And>w'. \<not> os_path_exists X w' pdir"
  shows "\<exists>self. snd (VectorStore_init_free X w cname pdir) = Inr self \<and> vectorstore self = None"
  using assms
  by (cases "HuggingFaceEmbeddings_init X w ''sentence-transformers/all-MiniLM-L6-v2''")
     (auto simp: VectorStore_init_free_def load_or_create_vectorstore_free_def
           split: option.splits)

text \<open>
  C4 as the specification states it fails in \<open>vector_store.py\<close>: the directory exists
  and holds no collection, \<open>__init__\<close> builds the Chroma object over it, the collection
  has zero entries, and a search with \<open>k = 0\<close> raises what Chroma raises.
\<close>

theorem similarity_search_held_empty_counterexample:
  "VectorStore_init client_externals (None, True) ''rag_documents'' ''./chroma_db'' ''openai'' =
     ((Some [], True), Inr opened_store)
   \<and> vectorstore opened_store = Some 0
   \<and> similarity_search client_externals (Some [], True) opened_store ''anything'' 0 =
       ((Some [], True),
        Inl (LibraryError ''Number of requested results cannot be negative, or zero.''))"
  by (simp add: VectorStore_init_def load_or_create_vectorstore_def similarity_search_def
                client_externals_def opened_store_def)

text \<open>
  C4, as the code has it. A store that holds no collection object
  (\<open>self.vectorstore is None\<close>: nothing was added since it was opened on a missing
  directory, or the collection was deleted through it) answers every search, for every
  query and every \<open>k\<close>, with the empty list, in both modules, without raising and
  without touching Chroma. On a store that holds a Chroma object,
  \<open>vector_store_completely_free.py\<close> returns the empty list whenever Chroma raises or
  finds nothing (and never raises: its model has no raising branch), and
  \<open>vector_store.py\<close> returns what Chroma returns and raises what Chroma raises.
\<close>

theorem similarity_search_empty_collection:
  "(vectorstore self = None \<longrightarrow>
      similarity_search X w self q k = (w, Inr [])
      \<and> similarity_search_free X w self q k = (w, []))
   \<and> (vectorstore self = Some h
        \<and> (snd (Chroma_similarity_search X w h q k) = Inl m
           \<or> snd (Chroma_similarity_search X w h q k) = Inr []) \<longrightarrow>
      snd (similarity_search_free X w self q k) = [])
   \<and> (vectorstore self = Some h \<longrightarrow>
      snd (similarity_search X w self q k) = lib (snd (Chroma_similarity_search X w h q k)))"
  by (cases "Chroma_similarity_search X w h q k")
     (auto simp: similarity_search_def similarity_search_free_def)

theorem similarity_search_empty_collection_witness:
  "vectorstore empty_store = None
   \<and> similarity_search memory_externals ([], False) empty_store ''anything'' 4 =
       (([], False), Inr [])
   \<and> similarity_search_free memory_externals ([], False) empty_store ''anything'' 0 =
       (([], False), [])
   \<and> vectorstore opened_store = Some 0
   \<and> snd (Chroma_similarity_search client_externals (Some [], True) 0 ''anything'' 0) =
       Inl ''Number of requested results cannot be negative, or zero.''
   \<and> snd (similarity_search_free client_externals (Some [], True) opened_store ''anything'' 0)
       = []
   \<and> snd (Chroma_similarity_search client_externals (Some [], True) 0 ''anything'' 4) = Inr []
   \<and> snd (similarity_search_free client_externals (Some [], True) opened_store ''anything'' 4)
       = []
   \<and> snd (similarity_search client_externals (Some [], True) opened_store ''anything'' 4)
       = Inr []"
  using similarity_search_empty_collection
          [where self = empty_store and X = memory_externals and w = "([], False)"
             and q = "''anything''" and k = 4]
        similarity_search_empty_collection
          [where self = empty_store and X = memory_externals and w = "([], False)"
             and q = "''anything''" and k = 0]
        similarity_search_empty_collection
          [where self = opened_store and h = 0 and X = client_externals
             and w = "(Some [], True)" and q = "''anything''" and k = 0
             and m = "''Number of requested results cannot be negative, or zero.''"]
        similarity_search_empty_collection
          [where self = opened_store and h = 0 and X = client_externals
             and w = "(Some [], True)" and q = "''anything''" and k = 4]
  by (simp add: empty_store_def opened_store_def client_externals_def)

text \<open>
  C9. In \<open>vector_store_completely_free.py\<close>, when the search of Chroma raises, for
  whatever query and \<open>k\<close>, \<open>similarity_search\<close> returns the empty list. (That it returns
  a list in every case is its type: the model has no raising branch for it.)
\<close>

theorem similarity_search_free_catches:
  assumes "vectorstore self = Some h"
    and "snd (Chroma_similarity_search X w h q k) = Inl m"
  shows "snd (similarity_search_free X w self q k) = []"
  using assms
  by (cases "Chroma_similarity_search X w h q k") (simp add: similarity_search_free_def)

theorem similarity_search_free_catches_witness:
  "vectorstore loaded_store = Some 0
   \<and> snd (Chroma_similarity_search unreachable_externals ([example_document], True) 0
            ''capital'' 4) = Inl ''connection refused''
   \<and> snd (similarity_search_free unreachable_externals ([example_document], True) loaded_store
            ''capital'' 4) = []"
proof -
  have a: "vectorstore loaded_store = Some 0"
    by (simp add: loaded_store_def)
  have b: "snd (Chroma_similarity_search unreachable_externals ([example_document], True) 0
                  ''capital'' 4) = Inl ''connection refused''"
    by (simp add: unreachable_externals_def memory_externals_def)
  show ?thesis
    using a b similarity_search_free_catches [OF a b] by simp
qed








section \<open>Theorems about rag_chain.py\<close>

text \<open>
  \<open>query\<close> has no raising branch: in every case it returns a dictionary with the three
  keys.
\<close>

lemma query_always_structured:
  "\<exists>a s b. snd (query self w question) =
     PyDict [(''answer'', a), (''source_documents'', s), (''success'', PyBool b)]"
  by (cases "qa_chain self w question")
     (auto simp: query_def query_failure_def split: sum.splits)

text \<open>
  C2. When the chain raises (whatever the reason: credentials, network, rate limit, a
  response it cannot use), or returns a dictionary that lacks one of the two keys
  \<open>query\<close> reads, \<open>query\<close> returns the dictionary with \<open>success\<close> false, an empty list of
  source documents, and a non-empty answer; when the chain raised with message \<open>m\<close>, the
  answer is "Error processing query: " followed by \<open>m\<close>.
\<close>

theorem query_provider_failure:
  assumes "snd (qa_chain self w question) = Inl m
         \<or> (\<exists>d. snd (qa_chain self w question) = Inr d
                \<and> (map_of d ''result'' = None \<or> map_of d ''source_documents'' = None))"
  shows "(\<exists>a. a \<noteq> [] \<and> snd (query self w question) =
            PyDict [(''answer'', PyStr a), (''source_documents'', PyDocs []),
                    (''success'', PyBool False)])
       \<and> (snd (qa_chain self w question) = Inl m \<longrightarrow>
            snd (query self w question) =
              PyDict [(''answer'', PyStr (''Error processing query: '' @ m)),
                      (''source_documents'', PyDocs []), (''success'', PyBool False)])"
  using assms
  by (cases "qa_chain self w question")
     (auto simp: query_def query_failure_def getitem_def split: option.splits sum.splits)

theorem query_provider_failure_witness:
  "snd (qa_chain failing_chain () ''Which city?'') = Inl ''Rate limit reached''
   \<and> snd (query failing_chain () ''Which city?'') =
       PyDict [(''answer'', PyStr ''Error processing query: Rate limit reached''),
               (''source_documents'', PyDocs []), (''success'', PyBool False)]
   \<and> snd (qa_chain malformed_chain () ''Which city?'') = Inr [(''query'', PyStr ''Which city?'')]
   \<and> map_of [(''query'', PyStr ''Which city?'')] ''result'' = None
   \<and> snd (query malformed_chain () ''Which city?'') =
       PyDict [(''answer'', PyStr (''Error processing query: '' @ [CHR 0x27] @ ''result''
                                    @ [CHR 0x27])),
               (''source_documents'', PyDocs []), (''success'', PyBool False)]"
proof -
  have f: "snd (qa_chain failing_chain () ''Which city?'') = Inl ''Rate limit reached''"
    by (simp add: failing_chain_def)
  have g: "snd (qa_chain malformed_chain () ''Which city?'') =
             Inr [(''query'', PyStr ''Which city?'')]"
    by (simp add: malformed_chain_def)
  have n: "map_of [(''query'', PyStr ''Which city?'')] ''result'' = None"
    by simp
  from g n have h: "snd (qa_chain malformed_chain () ''Which city?'') = Inl ''none''
         \<or> (\<exists>d. snd (qa_chain malformed_chain () ''Which city?'') = Inr d
                \<and> (map_of d ''result'' = None \<or> map_of d ''source_documents'' = None))"
    by blast
  show ?thesis
    using f g n query_provider_failure [OF disjI1, OF f] query_provider_failure [OF h]
    by (simp add: query_def query_failure_def getitem_def malformed_chain_def)
qed

section \<open>Theorems about app_local.py\<close>

text \<open>
  C6 as the specification states it fails: on a search that finds nothing,
  \<open>simple_rag_response\<close> returns a string, the fixed sentence, and a string has neither
  a \<open>success\<close> nor a \<open>source_documents\<close> entry.
\<close>

theorem simple_rag_response_counterexample:
  "snd (similarity_search_free memory_externals ([], False) empty_store ''anything'' 3) = []
   \<and> snd (simple_rag_response memory_externals ([], False) (Some empty_store) ''anything'' 3) =
       PyStr no_information
   \<and> field (snd (simple_rag_response memory_externals ([], False) (Some empty_store)
              ''anything'' 3)) ''success'' = None
   \<and> field (snd (simple_rag_response memory_externals ([], False) (Some empty_store)
              ''anything'' 3)) ''source_documents'' = None"
  by (simp add: simple_rag_response_def similarity_search_free_def empty_store_def)

text \<open>
  C6, as the code has it. For every question and every \<open>k\<close>, if the search of the store
  finds no document, \<open>simple_rag_response\<close> returns the string "I couldn't find any
  relevant information in the documents to answer your question."; this string is not
  one of the error reports of the function, which begin "Error searching documents: ".
\<close>

theorem simple_rag_response_nothing_found:
  assumes "snd (similarity_search_free X w vs question k) = []"
  shows "snd (simple_rag_response X w (Some vs) question k) = PyStr no_information
       \<and> no_information \<noteq> ''Error searching documents: '' @ m"
  using assms
  by (cases "similarity_search_free X w vs question k")
     (auto simp: simple_rag_response_def no_information_def)

theorem simple_rag_response_nothing_found_witness:
  "snd (similarity_search_free memory_externals ([], True) loaded_store ''anything'' 3) = []
   \<and> snd (simple_rag_response memory_externals ([], True) (Some loaded_store) ''anything'' 3) =
       PyStr no_information"
proof -
  have h: "snd (similarity_search_free memory_externals ([], True) loaded_store ''anything'' 3)
             = []"
    by (simp add: similarity_search_free_def memory_externals_def loaded_store_def)
  show ?thesis
    using h simple_rag_response_nothing_found [OF h] by simp
qed

end
